theory Spec2Isabelle
  imports
    Complex_Main
    "HOL-Library.Char_ord"
    "HOL-Library.List_Lexorder"
    "HOL-Library.Multiset"
    "HOL-Library.Sublist"
begin

section \<open>Strings\<close>

text \<open>
  A Python \<open>str\<close> is a sequence of code points. The model covers the code points
  below 256: a \<^typ>\<open>char\<close> is read as the code point with that number, so
  \<^typ>\<open>string\<close> is a Python string over that range. \<open>str.isspace\<close>,
  \<open>str.strip\<close> and \<open>str.lower\<close> are written out for these code points.
\<close>

definition isspace :: "char \<Rightarrow> bool" where
  "isspace c = (of_char c \<in> set [9, 10, 11, 12, 13, 28, 29, 30, 31, 32, 133, 160 :: nat])"

definition strip :: "string \<Rightarrow> string" where
  "strip s = rev (dropWhile isspace (rev (dropWhile isspace s)))"

definition isupper :: "char \<Rightarrow> bool" where
  "isupper c =
     (let n = (of_char c :: nat)
      in (65 \<le> n \<and> n \<le> 90) \<or> (192 \<le> n \<and> n \<le> 222 \<and> n \<noteq> 215))"

definition lower_char :: "char \<Rightarrow> char" where
  "lower_char c = (if isupper c then char_of (of_char c + (32 :: nat)) else c)"

definition lower :: "string \<Rightarrow> string" where
  "lower s = map lower_char s"

section \<open>Regular-expression search, as \<open>Series.str.contains\<close> uses it\<close>

text \<open>
  \<open>str.contains(pat)\<close> is called with its defaults, so \<open>pat\<close> is a regular
  expression: it is compiled with \<open>re.compile\<close>, which raises \<open>re.error\<close> on an
  ill-formed pattern, and each name is then tested with the \<open>search\<close> of the compiled
  pattern. The engine of regular expressions is a parameter of the model: a function
  that gives, for a pattern, \<open>None\<close> when compiling it raises, and otherwise the test
  that \<open>search\<close> makes on a string.
\<close>

type_synonym regex_engine = "string \<Rightarrow> (string \<Rightarrow> bool) option"

text \<open>
  What Python's engine does is written out for the patterns built from ordinary
  characters and the dot: such a pattern compiles, an ordinary character matches itself,
  the dot matches every character but the newline, and \<open>search\<close> looks for a match at
  every position. \<open>re_special\<close> lists the characters that are not ordinary.
\<close>

definition re_special :: "char \<Rightarrow> bool" where
  "re_special c =
     (c \<in> set [CHR ''.'', CHR ''^'', CHR ''$'', CHR ''*'', CHR ''+'', CHR ''?'', CHR ''{'',
                CHR ''}'', CHR ''['', CHR '']'', CHR 0x5C, CHR ''|'', CHR ''('', CHR '')''])"

fun re_match :: "string \<Rightarrow> string \<Rightarrow> bool" where
  "re_match [] s = True"
| "re_match (p # ps) [] = False"
| "re_match (p # ps) (c # cs) =
     ((if p = CHR ''.'' then c \<noteq> CHR 0x0A else c = p) \<and> re_match ps cs)"

fun re_search :: "string \<Rightarrow> string \<Rightarrow> bool" where
  "re_search pat [] = re_match pat []"
| "re_search pat (c # cs) = (re_match pat (c # cs) \<or> re_search pat cs)"

section \<open>Numbers\<close>

text \<open>
  A numeric column of the data frame holds 64-bit integers or doubles. Doubles are a
  type parameter \<open>'f\<close>; the two operations of the interpreter that the program uses
  on them, the conversion of an integer and the multiplication, are the fields of
  \<open>arith\<close>.
\<close>

datatype 'f num = IntNum int | FloatNum 'f

record 'f arith =
  float_of_int :: "int \<Rightarrow> 'f"
  float_mul :: "'f \<Rightarrow> 'f \<Rightarrow> 'f"

definition py_float :: "'f arith \<Rightarrow> 'f num \<Rightarrow> 'f" where
  "py_float ops x = (case x of IntNum i \<Rightarrow> float_of_int ops i | FloatNum v \<Rightarrow> v)"

section \<open>The data frame\<close>

record 'f dish =
  Dish :: string
  Calories :: "'f num"
  Protein_g :: "'f num"
  Carbs_g :: "'f num"
  Fat_g :: "'f num"

record 'f indexed_dish = "'f dish" +
  dish_lower :: string

datatype error = FileNotFoundError | AttributeError | IndexError | ReError

text \<open>
  The file system gives, for a path, the table \<open>pd.read_csv\<close> reads there, or
  nothing when no file is there.
\<close>

type_synonym 'f files = "string \<Rightarrow> 'f dish list option"

definition load_dishes :: "'f files \<Rightarrow> string \<Rightarrow> error + 'f indexed_dish list" where
  "load_dishes fs DATA_PATH =
     (case fs DATA_PATH of
        None \<Rightarrow> Inl FileNotFoundError
      | Some df \<Rightarrow>
          Inr (map (\<lambda>r. \<lparr>Dish = Dish r, Calories = Calories r, Protein_g = Protein_g r,
                           Carbs_g = Carbs_g r, Fat_g = Fat_g r,
                           dish_lower = lower (Dish r)\<rparr>) df))"

section \<open>The steps of \<open>main\<close>\<close>

definition dish_list :: "'f indexed_dish list \<Rightarrow> string list" where
  "dish_list dishes_df = sort (map Dish dishes_df)"

text \<open>
  The lookup of \<open>main\<close>. The selection control gives the selected name, or
  \<open>None\<close> when it has no option to offer; calling \<open>lower\<close> on \<open>None\<close> raises
  \<open>AttributeError\<close>. A typed text that does not compile as a pattern raises
  \<open>re.error\<close>.
\<close>

definition result_df ::
  "regex_engine \<Rightarrow> 'f indexed_dish list \<Rightarrow> string option \<Rightarrow> string \<Rightarrow>
   error + 'f indexed_dish list" where
  "result_df re_compile dishes_df selected_dish text_input_dish =
     (if strip text_input_dish \<noteq> [] then
        (let query = lower (strip text_input_dish)
         in case re_compile query of
              None \<Rightarrow> Inl ReError
            | Some search \<Rightarrow> Inr (filter (\<lambda>r. search (dish_lower r)) dishes_df))
      else
        (case selected_dish of
           None \<Rightarrow> Inl AttributeError
         | Some d \<Rightarrow>
             (let query = lower d
              in Inr (filter (\<lambda>r. dish_lower r = query) dishes_df))))"

definition display_df :: "'f indexed_dish list \<Rightarrow> 'f dish list" where
  "display_df res =
     map (\<lambda>r. \<lparr>Dish = Dish r, Calories = Calories r, Protein_g = Protein_g r,
                Carbs_g = Carbs_g r, Fat_g = Fat_g r\<rparr>) res"

definition iloc0 :: "'a list \<Rightarrow> error + 'a" where
  "iloc0 df = (case df of [] \<Rightarrow> Inl IndexError | r # _ \<Rightarrow> Inr r)"

definition nutrient_labels :: "string list" where
  "nutrient_labels = [''Calories'', ''Protein_g'', ''Carbs_g'', ''Fat_g'']"

definition per_serving_values :: "'f arith \<Rightarrow> ('f, 'x) dish_scheme \<Rightarrow> 'f list" where
  "per_serving_values ops r =
     [py_float ops (Calories r), py_float ops (Protein_g r),
      py_float ops (Carbs_g r), py_float ops (Fat_g r)]"

definition total_values :: "'f arith \<Rightarrow> 'f list \<Rightarrow> int \<Rightarrow> 'f list" where
  "total_values ops per serving_count =
     map (\<lambda>v. float_mul ops v (float_of_int ops serving_count)) per"

section \<open>The page\<close>

text \<open>
  A run of \<open>main\<close> shows a sequence of page elements and ends by returning or with
  an exception nobody catches. An element carries the values computed for it; turning
  them into text and pixels is left to the library that draws. Calls that only arrange
  the page (columns, separators, the wrappers of a metric) are left out.
\<close>

datatype 'f element =
    St_title
  | St_write_intro
  | St_error
  | Sidebar_header
  | Sidebar_slider int int
  | Sidebar_tip
  | Subheader_choose
  | St_selectbox "string list"
  | St_text_input
  | St_warning
  | Subheader_table
  | St_dataframe "'f dish list"
  | Subheader_summary int string
  | St_metric string 'f 'f
  | Subheader_chart
  | St_plotly_chart "(string \<times> 'f) list" int string
  | St_pyplot "(string \<times> 'f) list" string
  | St_write_explanation

record 'f page =
  shown :: "'f element list"
  raised :: "error option"

definition intro_elements :: "'f element list" where
  "intro_elements = [St_title, St_write_intro]"

definition control_elements :: "'f indexed_dish list \<Rightarrow> 'f element list" where
  "control_elements dishes_df =
     [Sidebar_header, Sidebar_slider 1 5, Sidebar_tip, Subheader_choose,
      St_selectbox (dish_list dishes_df), St_text_input]"

definition summary_elements :: "'f arith \<Rightarrow> int \<Rightarrow> 'f indexed_dish \<Rightarrow> 'f element list" where
  "summary_elements ops serving_count r =
     (let per = per_serving_values ops r;
          tot = total_values ops per serving_count
      in [Subheader_summary serving_count (Dish r),
          St_metric ''Calories'' (tot ! 0) (per ! 0),
          St_metric ''Protein'' (tot ! 1) (per ! 1),
          St_metric ''Carbs'' (tot ! 2) (per ! 2),
          St_metric ''Fat'' (tot ! 3) (per ! 3),
          Subheader_chart,
          St_plotly_chart (zip nutrient_labels tot) serving_count (Dish r),
          St_pyplot (zip nutrient_labels per) (Dish r),
          St_write_explanation])"

definition main ::
  "'f arith \<Rightarrow> regex_engine \<Rightarrow> 'f files \<Rightarrow> string \<Rightarrow> int \<Rightarrow> string option \<Rightarrow> string \<Rightarrow>
   'f page" where
  "main ops re_compile fs DATA_PATH serving_count selected_dish text_input_dish =
     (case load_dishes fs DATA_PATH of
        Inl e \<Rightarrow>
          (if e = FileNotFoundError
           then \<lparr>shown = intro_elements @ [St_error], raised = None\<rparr>
           else \<lparr>shown = intro_elements, raised = Some e\<rparr>)
      | Inr dishes_df \<Rightarrow>
          (let top = intro_elements @ control_elements dishes_df
           in case result_df re_compile dishes_df selected_dish text_input_dish of
                Inl e \<Rightarrow> \<lparr>shown = top, raised = Some e\<rparr>
              | Inr res \<Rightarrow>
                  (if res = [] then \<lparr>shown = top @ [St_warning], raised = None\<rparr>
                   else
                     (let table = top @ [Subheader_table, St_dataframe (display_df res)]
                      in case iloc0 res of
                           Inl e \<Rightarrow> \<lparr>shown = table, raised = Some e\<rparr>
                         | Inr r \<Rightarrow>
                             \<lparr>shown = table @ summary_elements ops serving_count r,
                              raised = None\<rparr>))))"

section \<open>Notions the properties are stated with\<close>

text \<open>
  Two names are the same up to letter case when they have the same length and, place
  by place, the characters are equal or one is the lower-case form of the other.
\<close>

definition same_up_to_case :: "string \<Rightarrow> string \<Rightarrow> bool" where
  "same_up_to_case a b =
     list_all2 (\<lambda>c d. c = d \<or> lower_char c = d \<or> c = lower_char d) a b"

text \<open>The page elements that present a looked-up dish: the table, the summary, the charts.\<close>

fun shows_result :: "'f element \<Rightarrow> bool" where
  "shows_result (St_dataframe t) = True"
| "shows_result (Subheader_summary n d) = True"
| "shows_result (St_metric l t p) = True"
| "shows_result (St_plotly_chart d n t) = True"
| "shows_result (St_pyplot d t) = True"
| "shows_result e = False"

text \<open>
  \<open>erase_totals\<close> blanks what an element holds of the serving count and of the totals:
  the count in the summary heading, the total of a metric, the data and the count of
  the interactive chart. Everything else of the element stays.
\<close>

fun erase_totals :: "'f element \<Rightarrow> 'f element" where
  "erase_totals (Subheader_summary n d) = Subheader_summary 0 d"
| "erase_totals (St_metric l t p) = St_metric l p p"
| "erase_totals (St_plotly_chart d n t) = St_plotly_chart [] 0 t"
| "erase_totals e = e"

section \<open>A sample table\<close>

text \<open>
  The examples below run the program on a small table with a repeated name, over the
  real numbers, where the conversion of an integer and the multiplication are exact.
  \<open>sample_re_compile\<close> is the engine of the examples whose typed text is built from
  ordinary characters and dots: on these it does what Python's engine does. An example
  with another pattern names its engine in place.
\<close>

definition sample_re_compile :: regex_engine where
  "sample_re_compile pat = Some (re_search pat)"

definition real_arith :: "real arith" where
  "real_arith = \<lparr>float_of_int = real_of_int, float_mul = (*)\<rparr>"

definition sample_csv :: "real dish list" where
  "sample_csv =
     [\<lparr>Dish = ''Veg Biryani'', Calories = IntNum 320, Protein_g = FloatNum 8.5,
       Carbs_g = FloatNum 52, Fat_g = FloatNum 9\<rparr>,
      \<lparr>Dish = ''Chicken Biryani'', Calories = IntNum 400, Protein_g = FloatNum 22,
       Carbs_g = FloatNum 50, Fat_g = FloatNum 12.5\<rparr>,
      \<lparr>Dish = ''Paneer Tikka'', Calories = IntNum 270, Protein_g = FloatNum 16,
       Carbs_g = FloatNum 8, Fat_g = FloatNum 19\<rparr>,
      \<lparr>Dish = ''Chicken Biryani'', Calories = IntNum 450, Protein_g = FloatNum 25,
       Carbs_g = FloatNum 55, Fat_g = FloatNum 14\<rparr>]"

definition sample_files :: "real files" where
  "sample_files path = (if path = ''data/dishes.csv'' then Some sample_csv else None)"

definition sample_df :: "real indexed_dish list" where
  "sample_df =
     [\<lparr>Dish = ''Veg Biryani'', Calories = IntNum 320, Protein_g = FloatNum 8.5,
       Carbs_g = FloatNum 52, Fat_g = FloatNum 9, dish_lower = ''veg biryani''\<rparr>,
      \<lparr>Dish = ''Chicken Biryani'', Calories = IntNum 400, Protein_g = FloatNum 22,
       Carbs_g = FloatNum 50, Fat_g = FloatNum 12.5, dish_lower = ''chicken biryani''\<rparr>,
      \<lparr>Dish = ''Paneer Tikka'', Calories = IntNum 270, Protein_g = FloatNum 16,
       Carbs_g = FloatNum 8, Fat_g = FloatNum 19, dish_lower = ''paneer tikka''\<rparr>,
      \<lparr>Dish = ''Chicken Biryani'', Calories = IntNum 450, Protein_g = FloatNum 25,
       Carbs_g = FloatNum 55, Fat_g = FloatNum 14, dish_lower = ''chicken biryani''\<rparr>]"

section \<open>Facts about the steps\<close>

subsection \<open>Letter case\<close>

lemma lower_char_idem: "lower_char (lower_char c) = lower_char c"
  by (auto simp: lower_char_def isupper_def Let_def)

lemma lower_idem: "lower (lower s) = lower s"
  by (simp add: lower_def lower_char_idem)

lemma lower_char_eq_iff:
  "(c = d \<or> lower_char c = d \<or> c = lower_char d) \<longleftrightarrow> lower_char c = lower_char d"
  by (auto simp: lower_char_def isupper_def Let_def split: if_splits)

lemma same_up_to_case_lower: "same_up_to_case a b \<longleftrightarrow> lower a = lower b"
  unfolding same_up_to_case_def lower_def lower_char_eq_iff
  by (induction a arbitrary: b) (auto simp: list_all2_Cons1)

subsection \<open>Patterns without special characters\<close>

lemma re_match_prefix:
  "list_all (\<lambda>c. \<not> re_special c) pat \<Longrightarrow> re_match pat s = prefix pat s"
  by (induction pat s rule: re_match.induct) (auto simp: re_special_def)

lemma re_search_sublist:
  "list_all (\<lambda>c. \<not> re_special c) pat \<Longrightarrow> re_search pat s = sublist pat s"
  by (induction s) (auto simp: re_match_prefix sublist_Cons_right)

subsection \<open>Filtering\<close>

lemma filter_first:
  "filter P xs \<noteq> [] \<Longrightarrow>
   \<exists>before after. xs = before @ hd (filter P xs) # after \<and> (\<forall>x\<in>set before. \<not> P x)"
proof (induction xs)
  case Nil
  then show ?case by simp
next
  case (Cons a xs)
  show ?case
  proof (cases "P a")
    case True
    then have "a # xs = [] @ hd (filter P (a # xs)) # xs \<and> (\<forall>x\<in>set []. \<not> P x)"
      by simp
    then show ?thesis by blast
  next
    case False
    with Cons.prems have "filter P xs \<noteq> []" by simp
    from Cons.IH [OF this] obtain before after
      where "xs = before @ hd (filter P xs) # after" "\<forall>x\<in>set before. \<not> P x"
      by blast
    with False have "a # xs = (a # before) @ hd (filter P (a # xs)) # after \<and>
        (\<forall>x\<in>set (a # before). \<not> P x)"
      by simp
    then show ?thesis by blast
  qed
qed

lemma count_list_filter: "count_list (filter P xs) x = (if P x then count_list xs x else 0)"
  by (induction xs) auto

subsection \<open>Loading and looking up\<close>

lemma load_dishes_lower:
  "load_dishes fs p = Inr df \<Longrightarrow> r \<in> set df \<Longrightarrow> dish_lower r = lower (Dish r)"
  by (auto simp: load_dishes_def split: option.splits)

lemma result_df_filter:
  "result_df re_compile df sel txt = Inr res \<Longrightarrow> \<exists>P. res = filter P df"
  by (auto simp: result_df_def Let_def split: if_splits option.splits)

lemma main_found:
  assumes load: "load_dishes fs p = Inr df"
    and res: "result_df re_compile df sel txt = Inr res"
    and ne: "res \<noteq> []"
  shows "main ops re_compile fs p s sel txt =
           \<lparr>shown = intro_elements @ control_elements df @
                     [Subheader_table, St_dataframe (display_df res)] @
                     summary_elements ops s (hd res),
            raised = None\<rparr>"
proof -
  from ne obtain r rest where "res = r # rest" by (cases res) auto
  then show ?thesis
    by (simp add: main_def load res iloc0_def)
qed

text \<open>
  Where the text typed has no character that is special in a pattern, and the engine
  treats it as Python's does, the search is the search for a substring of the
  lower-case name.
\<close>

lemma plain_query_substring:
  assumes load: "load_dishes fs p = Inr df"
    and typed: "strip txt \<noteq> []"
    and plain: "list_all (\<lambda>c. \<not> re_special c) (lower (strip txt))"
    and engine: "re_compile (lower (strip txt)) = Some (re_search (lower (strip txt)))"
  shows "result_df re_compile df sel txt =
           Inr (filter (\<lambda>r. sublist (lower (strip txt)) (lower (Dish r))) df)"
proof -
  have "filter (\<lambda>r. re_search (lower (strip txt)) (dish_lower r)) df =
      filter (\<lambda>r. sublist (lower (strip txt)) (lower (Dish r))) df"
    by (rule filter_cong) (auto simp: re_search_sublist [OF plain] load_dishes_lower [OF load])
  then show ?thesis
    by (simp add: result_df_def typed engine)
qed

lemma sample_load: "load_dishes sample_files ''data/dishes.csv'' = Inr sample_df"
  by code_simp

section \<open>The scaler\<close>

text \<open>
  Claim C1. The per-serving values are the four nutrient fields of the record, in the
  order calories, protein, carbohydrates, fat, each read as a double: a double is taken
  as it is, an integer is converted. Each total is the product of the per-serving value
  and the serving count, by one multiplication of doubles; the count enters as it was
  given, whatever it is, and nothing is rounded.
\<close>

theorem scaler_values:
  "per_serving_values ops r =
     [py_float ops (Calories r), py_float ops (Protein_g r),
      py_float ops (Carbs_g r), py_float ops (Fat_g r)] \<and>
   total_values ops (per_serving_values ops r) s =
     [float_mul ops (py_float ops (Calories r)) (float_of_int ops s),
      float_mul ops (py_float ops (Protein_g r)) (float_of_int ops s),
      float_mul ops (py_float ops (Carbs_g r)) (float_of_int ops s),
      float_mul ops (py_float ops (Fat_g r)) (float_of_int ops s)] \<and>
   py_float ops (FloatNum v) = v \<and>
   py_float ops (IntNum n) = float_of_int ops n"
  by (simp add: per_serving_values_def total_values_def py_float_def)

text \<open>
  Claim C2. Where multiplying a double by the double of 1 gives the double back, as it
  does for the numbers of IEEE arithmetic, the total at \<open>s\<close> servings is, nutrient by
  nutrient, the total at one serving times \<open>s\<close>, for every serving count \<open>s\<close> and so
  for those from 1 to 5; and the totals at one serving are the per-serving values.
  Equality here is identity of values; a field that holds no number (a NaN, which
  Python's comparison never finds equal to itself) is outside the statement.
\<close>

theorem scaler_linear:
  assumes one: "\<And>v. float_mul ops v (float_of_int ops 1) = v"
    and i: "i < 4"
  shows "total_values ops (per_serving_values ops r) s ! i =
           float_mul ops (total_values ops (per_serving_values ops r) 1 ! i)
             (float_of_int ops s) \<and>
         total_values ops (per_serving_values ops r) 1 = per_serving_values ops r"
proof -
  have len: "length (per_serving_values ops r) = 4"
    by (simp add: per_serving_values_def)
  have id1: "total_values ops (per_serving_values ops r) 1 = per_serving_values ops r"
    unfolding total_values_def by (simp add: one map_idI)
  have "total_values ops (per_serving_values ops r) s ! i =
          float_mul ops (per_serving_values ops r ! i) (float_of_int ops s)"
    unfolding total_values_def using i len by simp
  with id1 show ?thesis by simp
qed

theorem scaler_linear_witness:
  "total_values real_arith (per_serving_values real_arith (sample_df ! 0)) 3 ! 1 =
     float_mul real_arith
       (total_values real_arith (per_serving_values real_arith (sample_df ! 0)) 1 ! 1)
       (float_of_int real_arith 3) \<and>
   total_values real_arith (per_serving_values real_arith (sample_df ! 0)) 1 =
     per_serving_values real_arith (sample_df ! 0) \<and>
   total_values real_arith (per_serving_values real_arith (sample_df ! 0)) 3 =
     [960, 25.5, 156, 27]"
proof -
  have one: "\<And>v. float_mul real_arith v (float_of_int real_arith 1) = v"
    by (simp add: real_arith_def)
  have i: "(1::nat) < 4" by simp
  have v: "total_values real_arith (per_serving_values real_arith (sample_df ! 0)) 3 =
     [960, 25.5, 156, 27]"
    by (simp add: total_values_def per_serving_values_def py_float_def real_arith_def
        sample_df_def)
  from scaler_linear [OF one i, of "sample_df ! 0" 3] v show ?thesis
    by blast
qed

section \<open>The lookup\<close>

text \<open>
  Claim C3. When the lookup finds at least one record, by the selected name or by any
  typed text and whatever the engine of regular expressions makes of it, the page shows
  the table of all the records found and then the summary, the metrics and the charts
  of one record: the first one found. That record stands in the table before every
  other record found, also when several records carry the same name.
\<close>

theorem active_record_is_first_match:
  assumes load: "load_dishes fs p = Inr df"
    and res: "result_df re_compile df sel txt = Inr res"
    and ne: "res \<noteq> []"
  shows "main ops re_compile fs p s sel txt =
           \<lparr>shown = intro_elements @ control_elements df @
                     [Subheader_table, St_dataframe (display_df res)] @
                     summary_elements ops s (hd res),
            raised = None\<rparr> \<and>
         (\<exists>before after. df = before @ hd res # after \<and> (\<forall>r\<in>set before. r \<notin> set res))"
proof -
  from res obtain P where P: "res = filter P df"
    using result_df_filter by blast
  with ne have "filter P df \<noteq> []" by simp
  from filter_first [OF this] obtain before after
    where "df = before @ hd (filter P df) # after" "\<forall>x\<in>set before. \<not> P x"
    by blast
  with P have "df = before @ hd res # after \<and> (\<forall>r\<in>set before. r \<notin> set res)"
    by simp
  then have "\<exists>before after. df = before @ hd res # after \<and> (\<forall>r\<in>set before. r \<notin> set res)"
    by blast
  with main_found [OF load res ne] show ?thesis by simp
qed

theorem active_record_is_first_match_witness:
  "load_dishes sample_files ''data/dishes.csv'' = Inr sample_df \<and>
   result_df sample_re_compile sample_df (Some ''chicken biryani'') '''' =
     Inr [sample_df ! 1, sample_df ! 3] \<and>
   main real_arith sample_re_compile sample_files ''data/dishes.csv'' 2
       (Some ''chicken biryani'') '''' =
     \<lparr>shown = intro_elements @ control_elements sample_df @
               [Subheader_table, St_dataframe (display_df [sample_df ! 1, sample_df ! 3])] @
               summary_elements real_arith 2 (sample_df ! 1),
      raised = None\<rparr> \<and>
   summary_elements real_arith 2 (sample_df ! 1) ! 1 = St_metric ''Calories'' 800 400 \<and>
   result_df
       (\<lambda>pat. if pat = ''chicken|veg''
          then Some (\<lambda>s. re_search ''chicken'' s \<or> re_search ''veg'' s) else None)
       sample_df None ''Chicken|Veg'' =
     Inr [sample_df ! 0, sample_df ! 1, sample_df ! 3] \<and>
   main real_arith
       (\<lambda>pat. if pat = ''chicken|veg''
          then Some (\<lambda>s. re_search ''chicken'' s \<or> re_search ''veg'' s) else None)
       sample_files ''data/dishes.csv'' 2 None ''Chicken|Veg'' =
     \<lparr>shown = intro_elements @ control_elements sample_df @
               [Subheader_table,
                St_dataframe (display_df [sample_df ! 0, sample_df ! 1, sample_df ! 3])] @
               summary_elements real_arith 2 (sample_df ! 0),
      raised = None\<rparr>"
proof -
  have res: "result_df sample_re_compile sample_df (Some ''chicken biryani'') '''' =
      Inr [sample_df ! 1, sample_df ! 3]"
    by code_simp
  have ne: "[sample_df ! 1, sample_df ! 3] \<noteq> []"
    by simp
  have m: "summary_elements real_arith 2 (sample_df ! 1) ! 1 = St_metric ''Calories'' 800 400"
    by code_simp
  have res': "result_df
       (\<lambda>pat. if pat = ''chicken|veg''
          then Some (\<lambda>s. re_search ''chicken'' s \<or> re_search ''veg'' s) else None)
       sample_df None ''Chicken|Veg'' =
     Inr [sample_df ! 0, sample_df ! 1, sample_df ! 3]"
    by code_simp
  have ne': "[sample_df ! 0, sample_df ! 1, sample_df ! 3] \<noteq> []"
    by simp
  show ?thesis
    using active_record_is_first_match [OF sample_load res ne, of real_arith 2]
      active_record_is_first_match [OF sample_load res' ne', of real_arith 2]
      sample_load res res' m
    by simp
qed

text \<open>
  Claim C4, at an input where the program departs from it. The text typed is a single
  dot, and the engine treats the dot as Python's does. The table holds one dish, Dal,
  whose name has no dot in it; the lookup returns that dish all the same, because the
  text is used as a regular expression and the dot matches any character.
\<close>

theorem dot_query_matches_name_without_dot:
  assumes dot: "re_compile ''.'' = Some (re_search ''.'')"
  shows "load_dishes
     (\<lambda>path. Some [\<lparr>Dish = ''Dal'', Calories = IntNum 180, Protein_g = FloatNum 9,
                      Carbs_g = FloatNum 24, Fat_g = FloatNum (4.5 :: real)\<rparr>])
     ''data/dishes.csv'' =
     Inr [\<lparr>Dish = ''Dal'', Calories = IntNum 180, Protein_g = FloatNum 9,
           Carbs_g = FloatNum 24, Fat_g = FloatNum 4.5, dish_lower = ''dal''\<rparr>] \<and>
   result_df re_compile
     [\<lparr>Dish = ''Dal'', Calories = IntNum 180, Protein_g = FloatNum 9,
       Carbs_g = FloatNum 24, Fat_g = FloatNum (4.5 :: real), dish_lower = ''dal''\<rparr>]
     (Some ''Dal'') ''.'' =
     Inr [\<lparr>Dish = ''Dal'', Calories = IntNum 180, Protein_g = FloatNum 9,
           Carbs_g = FloatNum 24, Fat_g = FloatNum 4.5, dish_lower = ''dal''\<rparr>] \<and>
   \<not> sublist (lower (strip ''.'')) (lower ''Dal'')"
proof -
  have q: "lower (strip ''.'') = ''.''"
    by code_simp
  have typed: "strip ''.'' \<noteq> []"
    by code_simp
  have found: "re_search ''.'' ''dal''"
    by simp
  have a: "load_dishes
     (\<lambda>path. Some [\<lparr>Dish = ''Dal'', Calories = IntNum 180, Protein_g = FloatNum 9,
                      Carbs_g = FloatNum 24, Fat_g = FloatNum (4.5 :: real)\<rparr>])
     ''data/dishes.csv'' =
     Inr [\<lparr>Dish = ''Dal'', Calories = IntNum 180, Protein_g = FloatNum 9,
           Carbs_g = FloatNum 24, Fat_g = FloatNum 4.5, dish_lower = ''dal''\<rparr>]"
    by code_simp
  have b: "result_df re_compile
     [\<lparr>Dish = ''Dal'', Calories = IntNum 180, Protein_g = FloatNum 9,
       Carbs_g = FloatNum 24, Fat_g = FloatNum (4.5 :: real), dish_lower = ''dal''\<rparr>]
     (Some ''Dal'') ''.'' =
     Inr [\<lparr>Dish = ''Dal'', Calories = IntNum 180, Protein_g = FloatNum 9,
           Carbs_g = FloatNum 24, Fat_g = FloatNum 4.5, dish_lower = ''dal''\<rparr>]"
    using typed found by (simp add: result_df_def q dot)
  have c: "\<not> sublist (lower (strip ''.'')) (lower ''Dal'')"
    by code_simp
  from a b c show ?thesis by blast
qed

theorem dot_query_matches_name_without_dot_witness:
  "sample_re_compile ''.'' = Some (re_search ''.'') \<and>
   result_df sample_re_compile
     [\<lparr>Dish = ''Dal'', Calories = IntNum 180, Protein_g = FloatNum 9,
       Carbs_g = FloatNum 24, Fat_g = FloatNum (4.5 :: real), dish_lower = ''dal''\<rparr>]
     (Some ''Dal'') ''.'' =
     Inr [\<lparr>Dish = ''Dal'', Calories = IntNum 180, Protein_g = FloatNum 9,
           Carbs_g = FloatNum 24, Fat_g = FloatNum 4.5, dish_lower = ''dal''\<rparr>] \<and>
   \<not> sublist ''.'' ''dal''"
proof -
  have dot: "sample_re_compile ''.'' = Some (re_search ''.'')"
    by (simp add: sample_re_compile_def)
  have n: "\<not> sublist ''.'' ''dal''"
    by code_simp
  from dot_query_matches_name_without_dot [of sample_re_compile] dot n show ?thesis
    by blast
qed

text \<open>
  Claim C5. With no text typed (nothing left of it after trimming), the lookup returns
  the records whose name is the selected name up to letter case, in the order of the
  table; a record that occurs several times in the table occurs as often in the
  result. Two selected names that are the same up to letter case give the same result.
\<close>

theorem exact_match_on_selected_name:
  assumes load: "load_dishes fs p = Inr df" and empty: "strip txt = []"
  shows "result_df re_compile df (Some d) txt = Inr (filter (\<lambda>r. same_up_to_case (Dish r) d) df) \<and>
         count_list (filter (\<lambda>r. same_up_to_case (Dish r) d) df) r =
           (if same_up_to_case (Dish r) d then count_list df r else 0) \<and>
         (same_up_to_case d d' \<longrightarrow> result_df re_compile df (Some d') txt = result_df re_compile df (Some d) txt)"
proof -
  have "filter (\<lambda>r. dish_lower r = lower d) df = filter (\<lambda>r. same_up_to_case (Dish r) d) df"
    by (rule filter_cong) (auto simp: same_up_to_case_lower load_dishes_lower [OF load])
  then have a: "result_df re_compile df (Some d) txt = Inr (filter (\<lambda>r. same_up_to_case (Dish r) d) df)"
    by (simp add: result_df_def empty)
  have b: "same_up_to_case d d' \<longrightarrow> result_df re_compile df (Some d') txt = result_df re_compile df (Some d) txt"
    by (simp add: result_df_def empty same_up_to_case_lower)
  from a b show ?thesis by (simp add: count_list_filter)
qed

theorem exact_match_on_selected_name_witness:
  "load_dishes sample_files ''data/dishes.csv'' = Inr sample_df \<and> strip ''  '' = [] \<and>
   same_up_to_case ''Chicken Biryani'' ''CHICKEN BIRYANI'' \<and>
   result_df sample_re_compile sample_df (Some ''CHICKEN BIRYANI'') ''  '' =
     result_df sample_re_compile sample_df (Some ''Chicken Biryani'') ''  '' \<and>
   result_df sample_re_compile sample_df (Some ''Chicken Biryani'') ''  '' = Inr [sample_df ! 1, sample_df ! 3]"
proof -
  have empty: "strip ''  '' = []"
    by code_simp
  have same: "same_up_to_case ''Chicken Biryani'' ''CHICKEN BIRYANI''"
    by code_simp
  have res: "result_df sample_re_compile sample_df (Some ''Chicken Biryani'') ''  '' =
      Inr [sample_df ! 1, sample_df ! 3]"
    by code_simp
  from exact_match_on_selected_name
    [OF sample_load empty, of sample_re_compile "''Chicken Biryani''" _ "''CHICKEN BIRYANI''"]
    same
  have "result_df sample_re_compile sample_df (Some ''CHICKEN BIRYANI'') ''  '' =
      result_df sample_re_compile sample_df (Some ''Chicken Biryani'') ''  ''"
    by blast
  then show ?thesis
    by (intro conjI sample_load empty same res)
qed

text \<open>
  Claim C6. A lookup uses one of two ways of searching. When something is left of the
  typed text after trimming, the names are searched for the typed text and the selected
  name plays no part: any other selection gives the same result. Otherwise the names
  are compared with the selected name, and the typed text plays no part.
\<close>

theorem one_query_mode:
  "(strip txt \<noteq> [] \<longrightarrow>
      result_df re_compile df sel txt = result_df re_compile df sel' txt \<and>
      result_df re_compile df sel txt =
        (case re_compile (lower (strip txt)) of
           None \<Rightarrow> Inl ReError
         | Some search \<Rightarrow> Inr (filter (\<lambda>r. search (dish_lower r)) df))) \<and>
   (strip txt = [] \<longrightarrow>
      result_df re_compile df (Some d) txt = result_df re_compile df (Some d) [] \<and>
      result_df re_compile df (Some d) txt = Inr (filter (\<lambda>r. dish_lower r = lower d) df))"
  by (simp add: result_df_def Let_def strip_def)

theorem one_query_mode_witness:
  "strip '' Biryani '' \<noteq> [] \<and>
   result_df sample_re_compile sample_df (Some ''Paneer Tikka'') '' Biryani '' =
     result_df sample_re_compile sample_df None '' Biryani '' \<and>
   result_df sample_re_compile sample_df (Some ''Paneer Tikka'') '' Biryani '' =
     Inr [sample_df ! 0, sample_df ! 1, sample_df ! 3] \<and>
   strip ''  '' = [] \<and>
   result_df sample_re_compile sample_df (Some ''Paneer Tikka'') ''  '' =
     result_df sample_re_compile sample_df (Some ''Paneer Tikka'') [] \<and>
   result_df sample_re_compile sample_df (Some ''Paneer Tikka'') ''  '' = Inr [sample_df ! 2]"
proof -
  have t: "strip '' Biryani '' \<noteq> []" by code_simp
  have e: "strip ''  '' = []" by code_simp
  have r1: "result_df sample_re_compile sample_df (Some ''Paneer Tikka'') '' Biryani '' =
     Inr [sample_df ! 0, sample_df ! 1, sample_df ! 3]" by code_simp
  have r2: "result_df sample_re_compile sample_df (Some ''Paneer Tikka'') ''  '' = Inr [sample_df ! 2]"
    by code_simp
  from one_query_mode
    [of "'' Biryani ''" sample_re_compile sample_df "Some ''Paneer Tikka''" None] t
  have a: "result_df sample_re_compile sample_df (Some ''Paneer Tikka'') '' Biryani '' =
      result_df sample_re_compile sample_df None '' Biryani ''"
    by blast
  from one_query_mode [of "''  ''" sample_re_compile sample_df _ _ "''Paneer Tikka''"] e
  have b: "result_df sample_re_compile sample_df (Some ''Paneer Tikka'') ''  '' =
      result_df sample_re_compile sample_df (Some ''Paneer Tikka'') []"
    by blast
  show ?thesis
    by (intro conjI t e a b r1 r2)
qed

section \<open>The two ways a run ends early\<close>

text \<open>
  Claim C7. When the lookup returns no record, by the selected name or by any typed
  text and whatever the engine of regular expressions makes of it, it returns the empty
  list and raises nothing; the run shows the controls and a warning and returns. The
  page has no table, no summary, no metric and no chart.
\<close>

theorem no_match_stops:
  assumes load: "load_dishes fs p = Inr df"
    and res: "result_df re_compile df sel txt = Inr []"
  shows "main ops re_compile fs p s sel txt =
           \<lparr>shown = intro_elements @ control_elements df @ [St_warning], raised = None\<rparr> \<and>
         filter shows_result (shown (main ops re_compile fs p s sel txt)) = []"
  by (simp add: main_def load res intro_elements_def control_elements_def)

theorem no_match_stops_witness:
  "load_dishes sample_files ''data/dishes.csv'' = Inr sample_df \<and>
   result_df sample_re_compile sample_df (Some ''Nonexistent Dish'') '''' = Inr [] \<and>
   main real_arith sample_re_compile sample_files ''data/dishes.csv'' 3
       (Some ''Nonexistent Dish'') '''' =
     \<lparr>shown = intro_elements @ control_elements sample_df @ [St_warning], raised = None\<rparr> \<and>
   filter shows_result
     (shown (main real_arith sample_re_compile sample_files ''data/dishes.csv'' 3
        (Some ''Nonexistent Dish'') '''')) = [] \<and>
   result_df
       (\<lambda>pat. if pat = ''zzz$''
          then Some (\<lambda>s. take 3 (rev s) = ''zzz'' \<or> take 4 (rev s) = CHR 0x0A # ''zzz'')
          else None)
       sample_df (Some ''Paneer Tikka'') ''zzz$'' = Inr [] \<and>
   main real_arith
       (\<lambda>pat. if pat = ''zzz$''
          then Some (\<lambda>s. take 3 (rev s) = ''zzz'' \<or> take 4 (rev s) = CHR 0x0A # ''zzz'')
          else None)
       sample_files ''data/dishes.csv'' 3 (Some ''Paneer Tikka'') ''zzz$'' =
     \<lparr>shown = intro_elements @ control_elements sample_df @ [St_warning], raised = None\<rparr>"
proof -
  have res: "result_df sample_re_compile sample_df (Some ''Nonexistent Dish'') '''' = Inr []"
    by code_simp
  have res': "result_df
       (\<lambda>pat. if pat = ''zzz$''
          then Some (\<lambda>s. take 3 (rev s) = ''zzz'' \<or> take 4 (rev s) = CHR 0x0A # ''zzz'')
          else None)
       sample_df (Some ''Paneer Tikka'') ''zzz$'' = Inr []"
    by code_simp
  from no_match_stops [OF sample_load res, of real_arith 3]
    no_match_stops [OF sample_load res', of real_arith 3] sample_load res res'
  show ?thesis
    by blast
qed

text \<open>
  Claim C8. When no file is at the path, loading fails with \<open>FileNotFoundError\<close> and
  yields no table. The run shows the error message after the title and the
  introduction, shows nothing else, and returns without an exception.
\<close>

theorem missing_csv_aborts:
  assumes missing: "fs p = None"
  shows "load_dishes fs p = Inl FileNotFoundError \<and>
         main ops re_compile fs p s sel txt =
           \<lparr>shown = [St_title, St_write_intro, St_error], raised = None\<rparr>"
  by (simp add: main_def load_dishes_def missing intro_elements_def)

theorem missing_csv_aborts_witness:
  "sample_files ''/nonexistent/path'' = None \<and>
   load_dishes sample_files ''/nonexistent/path'' = Inl FileNotFoundError \<and>
   main real_arith sample_re_compile sample_files ''/nonexistent/path'' 1 (Some ''Paneer Tikka'') ''rice'' =
     \<lparr>shown = [St_title, St_write_intro, St_error], raised = None\<rparr>"
proof -
  have missing: "sample_files ''/nonexistent/path'' = None"
    by (simp add: sample_files_def)
  from missing_csv_aborts [of sample_files "''/nonexistent/path''" real_arith
      sample_re_compile 1 "Some ''Paneer Tikka''" "''rice''"] missing
  show ?thesis by blast
qed

section \<open>The selection control\<close>

text \<open>
  Claim C9 as stated fails: the names offered are not made distinct. A table with two
  dishes called Dal gives a control that offers Dal twice.
\<close>

theorem selectbox_repeats_duplicate_names:
  "shown (main real_arith sample_re_compile
      (\<lambda>path. Some [\<lparr>Dish = ''Dal'', Calories = IntNum 180, Protein_g = FloatNum 9,
                       Carbs_g = FloatNum 24, Fat_g = FloatNum 4.5\<rparr>,
                     \<lparr>Dish = ''Dal'', Calories = IntNum 210, Protein_g = FloatNum 11,
                       Carbs_g = FloatNum 27, Fat_g = FloatNum 6\<rparr>])
      ''data/dishes.csv'' 1 (Some ''Dal'') '''') ! 6 = St_selectbox [''Dal'', ''Dal''] \<and>
   \<not> distinct [''Dal'', ''Dal'']"
  by code_simp

text \<open>
  Claim C9, amended. The selection control is populated from the sorted list of the
  dish names of the table, every name as often as the table has it; so each name
  appears exactly once when the names of the table are distinct.
\<close>

theorem selectbox_sorted_names:
  assumes load: "load_dishes fs p = Inr df"
  shows "St_selectbox (dish_list df) \<in> set (shown (main ops re_compile fs p s sel txt)) \<and>
         sorted (dish_list df) \<and>
         mset (dish_list df) = mset (map Dish df) \<and>
         (distinct (map Dish df) \<longrightarrow> distinct (dish_list df))"
proof -
  have "St_selectbox (dish_list df) \<in> set (shown (main ops re_compile fs p s sel txt))"
    by (auto simp: main_def load control_elements_def Let_def split: sum.splits)
  then show ?thesis
    by (simp add: dish_list_def)
qed

theorem selectbox_sorted_names_witness:
  "load_dishes sample_files ''data/dishes.csv'' = Inr sample_df \<and>
   St_selectbox (dish_list sample_df) \<in>
     set (shown (main real_arith sample_re_compile sample_files ''data/dishes.csv'' 1 (Some ''Paneer Tikka'') '''')) \<and>
   sorted (dish_list sample_df) \<and>
   dish_list sample_df =
     [''Chicken Biryani'', ''Chicken Biryani'', ''Paneer Tikka'', ''Veg Biryani'']"
proof -
  have l: "dish_list sample_df =
     [''Chicken Biryani'', ''Chicken Biryani'', ''Paneer Tikka'', ''Veg Biryani'']"
    by code_simp
  from selectbox_sorted_names
    [OF sample_load, of real_arith sample_re_compile 1 "Some ''Paneer Tikka''" "''''"]
  have "St_selectbox (dish_list sample_df) \<in>
     set (shown (main real_arith sample_re_compile sample_files ''data/dishes.csv'' 1 (Some ''Paneer Tikka'') ''''))"
    and "sorted (dish_list sample_df)"
    by blast+
  with sample_load l show ?thesis by blast
qed

section \<open>What the serving count reaches\<close>

text \<open>
  Claim C10. Two runs on the same files, selection and typed text, with the same
  engine of regular expressions, that differ in the serving count alone end the same
  way and show pages that agree once the serving count and the totals are blanked: the
  same table of records found, the same dish in the headings, the same per-serving
  values in the metrics and in the static chart. The lookup and the per-serving values
  do not take the serving count at all.
\<close>

theorem serving_count_only_scales:
  "map erase_totals (shown (main ops re_compile fs p s1 sel txt)) =
     map erase_totals (shown (main ops re_compile fs p s2 sel txt)) \<and>
   raised (main ops re_compile fs p s1 sel txt) = raised (main ops re_compile fs p s2 sel txt)"
  by (auto simp: main_def Let_def summary_elements_def split: sum.splits)

end
